theory Spec2Isabelle
  imports Complex_Main
begin

section \<open>Flood-hazard processing (glanvup/floodzard.py)\<close>

text \<open>
  A shallow embedding of the class \<open>FloodProcess\<close>: \<open>process_flood_tiff\<close> (clipping the
  hazard raster to each region), \<open>process_tif\<close> (turning each clipped raster into
  polygons), \<open>pop_flood\<close> (concatenating the polygon shapefiles) and
  \<open>flood_pop_overlay\<close> (joining population to boundaries and intersecting with the
  polygons).

  The geometric primitives of the libraries the class calls (the raster window of a
  geometry, the tracing of raster cells into shapes, the intersection of two
  geometries) are parameters of the model. The tabular operations of the libraries
  (\<open>DataFrame.merge\<close>, \<open>DataFrame.append\<close>, the pairing done by \<open>geopandas.overlay\<close>,
  the \<open>crop = True\<close> rule of \<open>rasterio.mask.mask\<close>) are written out as documented by
  the libraries. Python exceptions are values of the type \<open>error\<close>. Coordinates are
  real numbers, the idealisation of Python's floats. Failures of the operating system
  (a missing folder, an unreadable file) are modelled only where a folder listing
  decides what the code does.
\<close>

subsection \<open>Exceptions\<close>

datatype error =
  ValueError | KeyError | IndexError | AttributeError | UnboundLocalError | DriverError

subsection \<open>Strings and file names\<close>

text \<open>Python's \<open>str.endswith\<close>.\<close>

definition endswith :: "string \<Rightarrow> string \<Rightarrow> bool" where
  "endswith s suffix =
     (length suffix \<le> length s \<and> drop (length s - length suffix) s = suffix)"

text \<open>
  \<open>os.path.splitext(name)[0]\<close> for a file name that ends in a dot followed by three
  characters: the extension is split off unless only dots precede it (leading dots
  are not an extension separator in Python).
\<close>

definition splitext_root :: "string \<Rightarrow> string" where
  "splitext_root name =
     (let root = take (length name - 4) name
      in if list_all (\<lambda>ch. ch = CHR ''.'') root then name else root)"

subsection \<open>Rasters, affine transforms and traced shapes\<close>

type_synonym point = "real \<times> real"
type_synonym ring = "point list"

text \<open>
  The six coefficients of an \<open>Affine\<close> transform; \<open>affine * (x, y)\<close> is
  \<open>(a x + b y + c, d x + e y + f)\<close>.
\<close>

record affine =
  coef_a :: real
  coef_b :: real
  coef_c :: real
  coef_d :: real
  coef_e :: real
  coef_f :: real

definition affine_mul :: "affine \<Rightarrow> point \<Rightarrow> point" where
  "affine_mul t p =
     (coef_a t * fst p + coef_b t * snd p + coef_c t,
      coef_d t * fst p + coef_e t * snd p + coef_f t)"

text \<open>A GeoJSON-like geometry mapping: its \<open>'type'\<close> and its \<open>'coordinates'\<close> (a list of rings).\<close>

record geojson =
  gtype :: string
  coordinates :: "ring list"

text \<open>An opened clipped raster: \<open>src.transform\<close> and \<open>src.read(1)\<close>.\<close>

record raster =
  transform :: affine
  band1 :: "int list list"

text \<open>An element of \<open>output\<close>: the feature mapping appended for one kept shape.\<close>

record feature =
  ftype :: string
  geometry :: geojson
  fvalue :: int

text \<open>
  \<open>rasterio.features.shapes(array)\<close> is a parameter: it yields pairs \<open>(vec[0], vec[1])\<close> of a
  geometry in pixel coordinates and the value of the cells it was traced from.
\<close>

type_synonym tracer = "int list list \<Rightarrow> (geojson \<times> int) list"

subsection \<open>\<open>process_tif\<close>\<close>

text \<open>The inner loop \<open>for i in coordinates\<close>, with \<open>coords\<close> as accumulator.\<close>

fun coords_loop :: "affine \<Rightarrow> ring \<Rightarrow> ring \<Rightarrow> ring" where
  "coords_loop t coords [] = coords"
| "coords_loop t coords (i # rest) =
     (let x = fst i; y = snd i; p2 = affine_mul t (x, y)
      in coords_loop t (coords @ [(fst p2, snd p2)]) rest)"

text \<open>
  The loop \<open>for vec in rasterio.features.shapes(array)\<close>, with \<open>output\<close> as accumulator.
  \<open>vec[0]['coordinates'][0]\<close> raises \<open>IndexError\<close> on an empty list of rings.
\<close>

fun shapes_loop :: "affine \<Rightarrow> feature list \<Rightarrow> (geojson \<times> int) list \<Rightarrow> error + feature list" where
  "shapes_loop t output [] = Inr output"
| "shapes_loop t output (vec # rest) =
     (if snd vec > 0 \<and> \<not> snd vec = 255 then
        (case coordinates (fst vec) of
           [] \<Rightarrow> Inl IndexError
         | ring0 # _ \<Rightarrow>
             shapes_loop t
               (output @ [\<lparr>ftype = gtype (fst vec),
                           geometry = \<lparr>gtype = ''Polygon'',
                                       coordinates = [coords_loop t [] ring0]\<rparr>,
                           fvalue = snd vec\<rparr>])
               rest)
      else shapes_loop t output rest)"

text \<open>The body of \<open>with rasterio.open(path_in) as src\<close>: the list \<open>output\<close> for one raster.\<close>

definition process_tif_output :: "tracer \<Rightarrow> raster \<Rightarrow> error + feature list" where
  "process_tif_output shapes src =
     (let affine = transform src; array = band1 src
      in shapes_loop affine [] (shapes array))"

text \<open>
  The loop over \<open>os.listdir(folder)\<close>. \<open>tif_dir\<close> is the folder of clipped rasters (names
  with contents, in listing order), \<open>shp_dir\<close> the folder of shapefiles being written.
  \<open>to_file\<close> tells whether \<open>GeoDataFrame.from_features\<close> followed by \<open>to_file\<close> accepts
  a list of features. Every exception inside the \<open>try\<close> skips the file.
\<close>

fun process_tif_loop ::
  "tracer \<Rightarrow> (feature list \<Rightarrow> bool) \<Rightarrow> (string \<times> raster) list \<Rightarrow> string list \<Rightarrow>
   (string \<rightharpoonup> feature list) \<Rightarrow> (string \<rightharpoonup> feature list)" where
  "process_tif_loop shapes to_file tif_dir [] shp_dir = shp_dir"
| "process_tif_loop shapes to_file tif_dir (tifs # rest) shp_dir =
     (if endswith tifs ''.tif'' then
        (let root = splitext_root tifs;
             path_in = root @ ''.tif'';
             path_out = root @ ''.shp''
         in case map_of tif_dir path_in of
              None \<Rightarrow> process_tif_loop shapes to_file tif_dir rest shp_dir
            | Some src \<Rightarrow>
                (case process_tif_output shapes src of
                   Inl err \<Rightarrow> process_tif_loop shapes to_file tif_dir rest shp_dir
                 | Inr output \<Rightarrow>
                     if to_file output
                     then process_tif_loop shapes to_file tif_dir rest
                            (shp_dir(path_out \<mapsto> output))
                     else process_tif_loop shapes to_file tif_dir rest shp_dir))
      else process_tif_loop shapes to_file tif_dir rest shp_dir)"

definition process_tif ::
  "tracer \<Rightarrow> (feature list \<Rightarrow> bool) \<Rightarrow> (string \<times> raster) list \<Rightarrow>
   (string \<rightharpoonup> feature list) \<Rightarrow> (string \<rightharpoonup> feature list)" where
  "process_tif shapes to_file tif_dir shp_dir =
     process_tif_loop shapes to_file tif_dir (map fst tif_dir) shp_dir"

subsection \<open>Tables\<close>

text \<open>
  A data frame: its column names and its rows. A row of a geographic frame has its
  attribute cells and its geometry; the attribute fields of the shapefiles are text
  fields (as the region codes are). A row of a CSV table has the cells \<open>read_csv\<close>
  made of it: text, numbers or booleans. A cell that is absent from a row is a null
  cell. The frame \<open>GeoDataFrame()\<close> has no column at all, in particular no \<open>geometry\<close>
  column.
\<close>

record 'r frame =
  columns :: "string list"
  rows :: "'r list"

record 'g geo_row =
  cells :: "(string \<times> string) list"
  geom :: 'g

datatype cell = Text string | Number real | Bool bool

type_synonym csv_row = "(string \<times> cell) list"

text \<open>\<open>'{}'.format(v)\<close> of a cell: a null cell is rendered as \<open>None\<close>.\<close>

definition format_cell :: "string option \<Rightarrow> string" where
  "format_cell v = (case v of None \<Rightarrow> ''None'' | Some s \<Rightarrow> s)"

text \<open>
  \<open>DataFrame.append(other, ignore_index = True)\<close>: the rows of both frames, in order;
  the columns of the first frame followed by the new columns of the second.
\<close>

definition append_frame :: "'r frame \<Rightarrow> 'r frame \<Rightarrow> 'r frame" where
  "append_frame df other =
     \<lparr>columns = columns df @ filter (\<lambda>c. c \<notin> set (columns df)) (columns other),
      rows = rows df @ rows other\<rparr>"

text \<open>
  The dtype \<open>read_csv\<close> gives a column is numeric (\<open>int64\<close> or \<open>float64\<close>) when the table
  has rows and every cell of the column is a number or blank; a column with a text cell
  is an \<open>object\<close> column, a column of booleans a \<open>bool\<close> column, and every column of a
  table without rows is an \<open>object\<close> column.
\<close>

definition numeric_key :: "csv_row frame \<Rightarrow> string \<Rightarrow> bool" where
  "numeric_key df on =
     (rows df \<noteq> [] \<and>
      list_all (\<lambda>r. case map_of r on of
                       Some (Text s) \<Rightarrow> False
                     | Some (Bool b) \<Rightarrow> False
                     | Some (Number n) \<Rightarrow> True
                     | None \<Rightarrow> True) (rows df))"

text \<open>
  \<open>left.merge(right, left_on = on, right_on = on)\<close> with the default \<open>how = 'inner'\<close>:
  \<open>KeyError\<close> when a frame lacks the key column; \<open>ValueError\<close> ("You are trying to merge
  on object and int64 columns") when both frames have rows and the text key of the left
  frame meets a numeric key column of the right frame; otherwise one row for every pair
  of a left and a right row with equal keys, in the order of the left rows. A text key
  equals a text cell with the same characters and no other cell; null keys match each
  other, as in pandas. A joined row is kept as the pair of its two source rows; the
  column names of the two frames, the key apart, are taken to be distinct (pandas would
  rename a column that both frames have).
\<close>

definition merge ::
  "'g geo_row frame \<Rightarrow> csv_row frame \<Rightarrow> string \<Rightarrow> error + ('g geo_row \<times> csv_row) frame" where
  "merge left right on =
     (if on \<notin> set (columns left) \<or> on \<notin> set (columns right) then Inl KeyError
      else if rows left \<noteq> [] \<and> numeric_key right on then Inl ValueError
      else Inr \<lparr>columns = columns left @ filter (\<lambda>c. \<not> c = on) (columns right),
                rows = concat (map (\<lambda>l. map (\<lambda>r. (l, r))
                         (filter (\<lambda>r. map_option Text (map_of (cells l) on) = map_of r on)
                            (rows right)))
                         (rows left))\<rparr>)"

text \<open>A row of the overlay: the two source rows and the geometry of their intersection.\<close>

record 'g exposure =
  joined_row :: "'g geo_row \<times> csv_row"
  hazard_row :: "'g geo_row"
  shape :: 'g

text \<open>
  \<open>geopandas.overlay(df1, df2, how = 'intersection')\<close>: \<open>AttributeError\<close> when a frame has
  no geometry column; otherwise one row for every pair of rows whose geometries
  intersect. \<open>intersects\<close> is the intersection of the geometry engine, \<open>None\<close> when the two
  geometries have no common area.
\<close>

definition overlay ::
  "('g \<Rightarrow> 'g \<Rightarrow> 'g option) \<Rightarrow> ('g geo_row \<times> csv_row) frame \<Rightarrow> 'g geo_row frame \<Rightarrow>
   error + 'g exposure list" where
  "overlay intersects df1 df2 =
     (if ''geometry'' \<notin> set (columns df1) \<or> ''geometry'' \<notin> set (columns df2)
      then Inl AttributeError
      else Inr (concat (map (\<lambda>r1. List.map_filter
                  (\<lambda>r2. map_option (\<lambda>g. \<lparr>joined_row = r1, hazard_row = r2, shape = g\<rparr>)
                          (intersects (geom (fst r1)) (geom r2)))
                  (rows df2)) (rows df1))))"

subsection \<open>The object and the files it works on\<close>

record flood_process =
  csv_filename :: string
  country_iso3 :: string
  flood_tiff :: string
  pop_csv :: string

text \<open>A row of the country metadata file; \<open>gid_region\<close> is the text of the level number.\<close>

record country =
  iso3 :: string
  gid_region :: string

text \<open>An opened hazard dataset: its no-data value and its grid.\<close>

record 'h dataset =
  nodata :: "int option"
  grid :: 'h

text \<open>
  The files: CSV tables by path, the hazard rasters by file name, and for each country
  code the folder of region shapefiles, the folder of clipped rasters and the folder of
  hazard shapefiles. A folder that is listed is a list of names with contents, in the
  order of \<open>os.listdir\<close>; the frame attached to a name that does not end in \<open>.shp\<close> is
  never read.
\<close>

record ('g, 'h, 'c) files =
  countries_csv :: "string \<Rightarrow> country list"
  population_csv :: "string \<Rightarrow> csv_row frame"
  flood_hazard :: "string \<Rightarrow> 'h dataset"
  regions_dir :: "string \<Rightarrow> (string \<times> 'g geo_row frame) list"
  tifs_dir :: "string \<Rightarrow> (string \<rightharpoonup> 'c)"
  shapefiles_dir :: "string \<Rightarrow> (string \<times> 'g geo_row frame) list"

subsection \<open>\<open>process_flood_tiff\<close>\<close>

text \<open>
  \<open>mask(hazard, coords, crop = True)\<close>: rasterio raises \<open>ValueError\<close> ("Input shapes do not
  overlap raster") when \<open>crop\<close> is set and the shapes do not overlap the raster;
  otherwise it returns the cropped window. \<open>overlaps\<close> and \<open>window\<close> are the geometric
  primitives.
\<close>

definition mask ::
  "('h dataset \<Rightarrow> 'g \<Rightarrow> bool) \<Rightarrow> ('h dataset \<Rightarrow> 'g \<Rightarrow> 'c) \<Rightarrow> 'h dataset \<Rightarrow> 'g \<Rightarrow> error + 'c" where
  "mask overlaps window hazard shapes =
     (if overlaps hazard shapes then Inr (window hazard shapes) else Inl ValueError)"

text \<open>
  The loop \<open>for idx, region in regions.iterrows()\<close>, on the folder of clipped rasters.
  \<open>region[gid_level]\<close> raises \<open>KeyError\<close> when the frame has no such column. The hazard
  file is opened for every region and its no-data value set to 255 before the mask is
  applied (the change this leaves in the hazard file is not modelled: every later
  opening sets the value again). There is no \<open>try\<close> in \<open>process_flood_tiff\<close>: an
  exception ends the loop, and the files written so far stay.
\<close>

fun regions_loop ::
  "('h dataset \<Rightarrow> 'g \<Rightarrow> bool) \<Rightarrow> ('h dataset \<Rightarrow> 'g \<Rightarrow> 'c) \<Rightarrow> 'h dataset \<Rightarrow> string \<Rightarrow>
   string list \<Rightarrow> 'g geo_row list \<Rightarrow> (string \<rightharpoonup> 'c) \<Rightarrow> (string \<rightharpoonup> 'c) \<times> error option" where
  "regions_loop overlaps window opened gid_level cols [] tifs = (tifs, None)"
| "regions_loop overlaps window opened gid_level cols (region # rest) tifs =
     (if gid_level \<notin> set cols then (tifs, Some KeyError)
      else
        (let gid_id = map_of (cells region) gid_level;
             hazard = opened\<lparr>nodata := Some 255\<rparr>
         in case mask overlaps window hazard (geom region) of
              Inl err \<Rightarrow> (tifs, Some err)
            | Inr out_img \<Rightarrow>
                (let filename_out = format_cell gid_id @ ''.tif''
                 in regions_loop overlaps window opened gid_level cols rest
                      (tifs(filename_out \<mapsto> out_img)))))"

text \<open>The loop \<open>for idx, country in countries.iterrows()\<close>.\<close>

fun countries_loop ::
  "('h dataset \<Rightarrow> 'g \<Rightarrow> bool) \<Rightarrow> ('h dataset \<Rightarrow> 'g \<Rightarrow> 'c) \<Rightarrow> flood_process \<Rightarrow>
   country list \<Rightarrow> ('g, 'h, 'c) files \<Rightarrow> ('g, 'h, 'c) files \<times> error option" where
  "countries_loop overlaps window self [] fs = (fs, None)"
| "countries_loop overlaps window self (country # rest) fs =
     (if \<not> iso3 country = country_iso3 self then countries_loop overlaps window self rest fs
      else
        (let gid_level = ''GID_'' @ gid_region country;
             filename = ''gadm_'' @ gid_region country @ ''.shp''
         in case map_of (regions_dir fs (iso3 country)) filename of
              None \<Rightarrow> (fs, Some DriverError)
            | Some regions \<Rightarrow>
                (case regions_loop overlaps window (flood_hazard fs (flood_tiff self))
                        gid_level (columns regions) (rows regions)
                        (tifs_dir fs (country_iso3 self)) of
                   (tifs, Some err) \<Rightarrow>
                     (fs\<lparr>tifs_dir := (tifs_dir fs)(country_iso3 self := tifs)\<rparr>, Some err)
                 | (tifs, None) \<Rightarrow>
                     countries_loop overlaps window self rest
                       (fs\<lparr>tifs_dir := (tifs_dir fs)(country_iso3 self := tifs)\<rparr>))))"

definition process_flood_tiff ::
  "('h dataset \<Rightarrow> 'g \<Rightarrow> bool) \<Rightarrow> ('h dataset \<Rightarrow> 'g \<Rightarrow> 'c) \<Rightarrow> flood_process \<Rightarrow>
   ('g, 'h, 'c) files \<Rightarrow> ('g, 'h, 'c) files \<times> error option" where
  "process_flood_tiff overlaps window self fs =
     countries_loop overlaps window self (countries_csv fs (csv_filename self)) fs"

subsection \<open>\<open>pop_flood\<close>\<close>

text \<open>The loop over the folder of hazard shapefiles, with \<open>combined_gdf\<close> as accumulator.\<close>

fun pop_flood_loop :: "'r frame \<Rightarrow> (string \<times> 'r frame) list \<Rightarrow> 'r frame" where
  "pop_flood_loop combined_gdf [] = combined_gdf"
| "pop_flood_loop combined_gdf (shapefiles # rest) =
     (if endswith (fst shapefiles) ''.shp''
      then (let gdf = snd shapefiles
            in pop_flood_loop (append_frame combined_gdf gdf) rest)
      else pop_flood_loop combined_gdf rest)"

definition pop_flood :: "flood_process \<Rightarrow> ('g, 'h, 'c) files \<Rightarrow> 'g geo_row frame" where
  "pop_flood self fs =
     pop_flood_loop \<lparr>columns = [], rows = []\<rparr> (shapefiles_dir fs (country_iso3 self))"

subsection \<open>\<open>flood_pop_overlay\<close>\<close>

text \<open>
  The loop over the folder of region shapefiles. \<open>intersection\<close> is \<open>None\<close> until the
  first shapefile has been processed; every further shapefile overwrites it.
\<close>

fun overlay_loop ::
  "('g \<Rightarrow> 'g \<Rightarrow> 'g option) \<Rightarrow> flood_process \<Rightarrow> ('g, 'h, 'c) files \<Rightarrow> csv_row frame \<Rightarrow>
   (string \<times> 'g geo_row frame) list \<Rightarrow> 'g exposure list option \<Rightarrow>
   error + 'g exposure list option" where
  "overlay_loop intersects self fs data [] intersection = Inr intersection"
| "overlay_loop intersects self fs data (shapefiles # rest) intersection =
     (if endswith (fst shapefiles) ''.shp'' then
        (let country_boundaries = snd shapefiles
         in case merge country_boundaries data ''GID_1'' of
              Inl err \<Rightarrow> Inl err
            | Inr pop_bound_flood \<Rightarrow>
                (let combined_gdf = pop_flood self fs
                 in case overlay intersects pop_bound_flood combined_gdf of
                      Inl err \<Rightarrow> Inl err
                    | Inr result \<Rightarrow> overlay_loop intersects self fs data rest (Some result)))
      else overlay_loop intersects self fs data rest intersection)"

text \<open>\<open>return intersection\<close> raises \<open>UnboundLocalError\<close> when no shapefile was found.\<close>

definition flood_pop_overlay ::
  "('g \<Rightarrow> 'g \<Rightarrow> 'g option) \<Rightarrow> flood_process \<Rightarrow> ('g, 'h, 'c) files \<Rightarrow> error + 'g exposure list" where
  "flood_pop_overlay intersects self fs =
     (let data = population_csv fs (pop_csv self)
      in case overlay_loop intersects self fs data (regions_dir fs (country_iso3 self)) None of
           Inl err \<Rightarrow> Inl err
         | Inr None \<Rightarrow> Inl UnboundLocalError
         | Inr (Some intersection) \<Rightarrow> Inr intersection)"


section \<open>Notions used in the statements\<close>

text \<open>
  The condition under which \<open>process_tif\<close> keeps a traced shape, and the feature it
  appends for a kept shape (the first ring, every vertex mapped by the transform).
\<close>

definition kept :: "geojson \<times> int \<Rightarrow> bool" where
  "kept vec = (0 < snd vec \<and> snd vec \<noteq> 255)"

definition vec_feature :: "affine \<Rightarrow> geojson \<times> int \<Rightarrow> feature" where
  "vec_feature t vec =
     \<lparr>ftype = gtype (fst vec),
      geometry = \<lparr>gtype = ''Polygon'',
                  coordinates = map (map (affine_mul t)) (take 1 (coordinates (fst vec)))\<rparr>,
      fvalue = snd vec\<rparr>"

text \<open>
  The part of the tracer's contract the statements rely on: every traced shape carries
  the value of some cell of the array.
\<close>

definition traces_cell_values :: "tracer \<Rightarrow> int list list \<Rightarrow> bool" where
  "traces_cell_values shapes array = (\<forall>vec\<in>set (shapes array). snd vec \<in> set (concat array))"

text \<open>
  A traced shape without its interior rings.
\<close>

definition drop_holes :: "geojson \<times> int \<Rightarrow> geojson \<times> int" where
  "drop_holes vec = ((fst vec)\<lparr>coordinates := take 1 (coordinates (fst vec))\<rparr>, snd vec)"

text \<open>
  The 2 x 2 array whose cell in row \<open>r\<close>, column \<open>c\<close> holds 3 and whose other cells hold
  the no-data value, and the corners of that cell in pixel coordinates \<open>(column, row)\<close>.
\<close>

definition grid_2x2 :: "nat \<Rightarrow> nat \<Rightarrow> int list list" where
  "grid_2x2 r c = map (\<lambda>i. map (\<lambda>j. if i = r \<and> j = c then 3 else 255) [0, 1]) [0, 1]"

definition cell_corners :: "nat \<Rightarrow> nat \<Rightarrow> point set" where
  "cell_corners r c =
     {(real c, real r), (real c + 1, real r), (real c + 1, real r + 1), (real c, real r + 1)}"

text \<open>
  The folder entries that \<open>pop_flood\<close> and \<open>flood_pop_overlay\<close> read.
\<close>

definition is_shp :: "string \<times> 'a \<Rightarrow> bool" where
  "is_shp entry = endswith (fst entry) ''.shp''"

section \<open>Sample inputs\<close>

text \<open>
  Concrete inputs on which the statements are evaluated. The sample geometries are
  axis-parallel boxes \<open>(xmin, ymin, xmax, ymax)\<close> with their usual intersection; the
  sample tracer answers for three small arrays.
\<close>

definition sample_affine :: affine where
  "sample_affine = \<lparr>coef_a = 2, coef_b = 0, coef_c = 10, coef_d = 0, coef_e = - 2, coef_f = 50\<rparr>"

definition sample_cell :: geojson where
  "sample_cell = \<lparr>gtype = ''Polygon'', coordinates = [[(1, 0), (1, 1), (2, 1), (2, 0), (1, 0)]]\<rparr>"

definition sample_rest :: geojson where
  "sample_rest = \<lparr>gtype = ''Polygon'',
     coordinates = [[(0, 0), (0, 2), (2, 2), (2, 1), (1, 1), (1, 0), (0, 0)]]\<rparr>"

definition sample_hole :: geojson where
  "sample_hole = \<lparr>gtype = ''Polygon'',
     coordinates = [[(0, 0), (0, 3), (3, 3), (3, 0), (0, 0)],
                    [(1, 1), (2, 1), (2, 2), (1, 2), (1, 1)]]\<rparr>"

definition sample_shapes :: tracer where
  "sample_shapes array =
     (if array = [[255, 3], [255, 255]] then [(sample_cell, 3), (sample_rest, 255)]
      else if array = [[7, 7, 7], [7, 0, 7], [7, 7, 7]]
      then [(sample_hole, 7),
            (\<lparr>gtype = ''Polygon'', coordinates = [[(1, 1), (1, 2), (2, 2), (2, 1), (1, 1)]]\<rparr>, 0)]
      else if array = [[255, 255], [255, 255]]
      then [(\<lparr>gtype = ''Polygon'', coordinates = [[(0, 0), (0, 2), (2, 2), (2, 0), (0, 0)]]\<rparr>, 255)]
      else [])"

definition sample_src :: raster where
  "sample_src = \<lparr>transform = sample_affine, band1 = [[255, 3], [255, 255]]\<rparr>"

definition sample_src_hole :: raster where
  "sample_src_hole = \<lparr>transform = sample_affine, band1 = [[7, 7, 7], [7, 0, 7], [7, 7, 7]]\<rparr>"

definition sample_src_nodata :: raster where
  "sample_src_nodata = \<lparr>transform = sample_affine, band1 = [[255, 255], [255, 255]]\<rparr>"

definition sample_feature :: feature where
  "sample_feature = \<lparr>ftype = ''Polygon'',
     geometry = \<lparr>gtype = ''Polygon'', coordinates = [[(12, 50), (12, 48), (14, 48), (14, 50), (12, 50)]]\<rparr>,
     fvalue = 3\<rparr>"

definition sample_feature_hole :: feature where
  "sample_feature_hole = \<lparr>ftype = ''Polygon'',
     geometry = \<lparr>gtype = ''Polygon'',
                 coordinates = [[(10, 50), (10, 44), (16, 44), (16, 50), (10, 50)]]\<rparr>,
     fvalue = 7\<rparr>"

type_synonym box = "int \<times> int \<times> int \<times> int"

definition sample_intersects :: "box \<Rightarrow> box \<Rightarrow> box option" where
  "sample_intersects p q =
     (case p of (x0, y0, x1, y1) \<Rightarrow> case q of (a0, b0, a1, b1) \<Rightarrow>
        if max x0 a0 < min x1 a1 \<and> max y0 b0 < min y1 b1
        then Some (max x0 a0, max y0 b0, min x1 a1, min y1 b1) else None)"

definition sample_overlaps :: "box dataset \<Rightarrow> box \<Rightarrow> bool" where
  "sample_overlaps hazard g = (sample_intersects (grid hazard) g \<noteq> None)"

definition sample_window :: "box dataset \<Rightarrow> box \<Rightarrow> box" where
  "sample_window hazard g = (case sample_intersects (grid hazard) g of Some w \<Rightarrow> w | None \<Rightarrow> g)"

definition sample_self :: flood_process where
  "sample_self = \<lparr>csv_filename = ''countries.csv'', country_iso3 = ''KEN'',
                  flood_tiff = ''inunriver.tif'', pop_csv = ''population.csv''\<rparr>"

definition sample_region :: "string \<Rightarrow> box \<Rightarrow> box geo_row" where
  "sample_region gid g = \<lparr>cells = [(''GID_1'', gid)], geom = g\<rparr>"

definition sample_regions :: "box geo_row frame" where
  "sample_regions = \<lparr>columns = [''GID_1'', ''geometry''],
     rows = [sample_region ''KEN.1_1'' (0, 0, 5, 5),
             sample_region ''KEN.2_1'' (20, 20, 30, 30),
             sample_region ''KEN.3_1'' (5, 5, 10, 10)]\<rparr>"

definition sample_hazard_row :: "box geo_row" where
  "sample_hazard_row = \<lparr>cells = [(''value'', ''3'')], geom = (1, 1, 2, 2)\<rparr>"

definition sample_hazards :: "box geo_row frame" where
  "sample_hazards = \<lparr>columns = [''value'', ''geometry''], rows = [sample_hazard_row]\<rparr>"

definition sample_population :: "csv_row frame" where
  "sample_population = \<lparr>columns = [''GID_1'', ''population''],
     rows = [[(''GID_1'', Text ''KEN.1_1''), (''population'', Number 100)],
             [(''GID_1'', Text ''KEN.9_1''), (''population'', Number 5)]]\<rparr>"

definition sample_files :: "(box, box, box) files" where
  "sample_files =
     \<lparr>countries_csv = (\<lambda>path. [\<lparr>iso3 = ''UGA'', gid_region = ''1''\<rparr>,
                                \<lparr>iso3 = ''KEN'', gid_region = ''1''\<rparr>]),
      population_csv = (\<lambda>path. sample_population),
      flood_hazard = (\<lambda>name. \<lparr>nodata = None, grid = (0, 0, 10, 10)\<rparr>),
      regions_dir = (\<lambda>code. [(''gadm_1.dbf'', \<lparr>columns = [], rows = []\<rparr>),
                              (''gadm_1.shp'', sample_regions)]),
      tifs_dir = (\<lambda>code. Map.empty),
      shapefiles_dir = (\<lambda>code. [(''KEN.1_1.shp'', sample_hazards),
                                 (''KEN.1_1.dbf'', \<lparr>columns = [], rows = []\<rparr>),
                                 (''KEN.3_1.shp'', sample_hazards)])\<rparr>"

definition sample_unmatched :: "(box, box, box) files" where
  "sample_unmatched = sample_files\<lparr>population_csv := (\<lambda>path.
     \<lparr>columns = [''GID_1'', ''population''],
      rows = [[(''GID_1'', Text ''KEN.9_1''), (''population'', Number 5)]]\<rparr>)\<rparr>"

definition sample_numeric :: "(box, box, box) files" where
  "sample_numeric = sample_files\<lparr>population_csv := (\<lambda>path.
     \<lparr>columns = [''GID_1'', ''population''],
      rows = [[(''GID_1'', Number 1), (''population'', Number 100)],
              [(''population'', Number 5)]]\<rparr>)\<rparr>"

definition sample_no_hazard :: "(box, box, box) files" where
  "sample_no_hazard = sample_files\<lparr>shapefiles_dir := (\<lambda>code. [])\<rparr>"

definition sample_level2 :: "(box, box, box) files" where
  "sample_level2 = sample_files\<lparr>regions_dir := (\<lambda>code.
     [(''gadm_2.shp'', \<lparr>columns = [''GID_2'', ''geometry''],
        rows = [\<lparr>cells = [(''GID_2'', ''KEN.1.1_1'')], geom = (0, 0, 5, 5)\<rparr>]\<rparr>)])\<rparr>"

definition sample_exposure :: "box exposure" where
  "sample_exposure =
     \<lparr>joined_row = (sample_region ''KEN.1_1'' (0, 0, 5, 5),
                     [(''GID_1'', Text ''KEN.1_1''), (''population'', Number 100)]),
      hazard_row = sample_hazard_row, shape = (1, 1, 2, 2)\<rparr>"

lemmas sample_defs = sample_intersects_def sample_overlaps_def sample_window_def sample_self_def
  sample_region_def sample_regions_def sample_hazard_row_def sample_hazards_def
  sample_population_def sample_files_def sample_exposure_def

section \<open>The loops of \<open>process_tif\<close>\<close>

lemma coords_loop_acc: "coords_loop t coords ring = coords @ map (affine_mul t) ring"
  by (induction ring arbitrary: coords) (simp_all add: Let_def)

lemma shapes_loop_drop:
  "\<not> kept vec \<Longrightarrow> shapes_loop t acc (vec # rest) = shapes_loop t acc rest"
  by (auto simp add: kept_def)

lemma shapes_loop_raise:
  "kept vec \<Longrightarrow> coordinates (fst vec) = [] \<Longrightarrow> shapes_loop t acc (vec # rest) = Inl IndexError"
  by (simp add: kept_def)

lemma shapes_loop_keep:
  "kept vec \<Longrightarrow> coordinates (fst vec) = ring0 # holes \<Longrightarrow>
   shapes_loop t acc (vec # rest) = shapes_loop t (acc @ [vec_feature t vec]) rest"
  by (simp add: kept_def vec_feature_def coords_loop_acc)

lemma shapes_loop_Inr:
  "shapes_loop t acc vecs = Inr res \<Longrightarrow>
     res = acc @ map (vec_feature t) (filter kept vecs) \<and>
     (\<forall>vec\<in>set vecs. kept vec \<longrightarrow> coordinates (fst vec) \<noteq> [])"
proof (induction vecs arbitrary: acc)
  case Nil
  then show ?case by simp
next
  case (Cons vec rest)
  show ?case
  proof (cases "kept vec")
    case False
    with Cons show ?thesis by (simp add: shapes_loop_drop del: shapes_loop.simps)
  next
    case True
    show ?thesis
    proof (cases "coordinates (fst vec)")
      case Nil
      with True Cons.prems show ?thesis by (simp add: shapes_loop_raise del: shapes_loop.simps)
    next
      case (Cons ring0 holes)
      with True Cons.prems have "shapes_loop t (acc @ [vec_feature t vec]) rest = Inr res"
        by (simp add: shapes_loop_keep del: shapes_loop.simps)
      from Cons.IH [OF this] True Cons show ?thesis by simp
    qed
  qed
qed

lemma shapes_loop_total:
  "(\<forall>vec\<in>set vecs. kept vec \<longrightarrow> coordinates (fst vec) \<noteq> []) \<Longrightarrow>
   shapes_loop t acc vecs = Inr (acc @ map (vec_feature t) (filter kept vecs))"
proof (induction vecs arbitrary: acc)
  case Nil
  then show ?case by simp
next
  case (Cons vec rest)
  show ?case
  proof (cases "kept vec")
    case False
    with Cons show ?thesis by (simp add: shapes_loop_drop del: shapes_loop.simps)
  next
    case True
    with Cons.prems obtain ring0 holes where "coordinates (fst vec) = ring0 # holes"
      by (cases "coordinates (fst vec)") auto
    with True Cons show ?thesis by (simp add: shapes_loop_keep del: shapes_loop.simps)
  qed
qed

lemma shapes_loop_Inl:
  "shapes_loop t acc vecs = Inl err \<Longrightarrow>
     err = IndexError \<and> (\<exists>vec\<in>set vecs. kept vec \<and> coordinates (fst vec) = [])"
proof (induction vecs arbitrary: acc)
  case Nil
  then show ?case by simp
next
  case (Cons vec rest)
  show ?case
  proof (cases "kept vec")
    case False
    with Cons show ?thesis by (simp add: shapes_loop_drop del: shapes_loop.simps)
  next
    case True
    show ?thesis
    proof (cases "coordinates (fst vec)")
      case Nil
      with True Cons.prems show ?thesis by (simp add: shapes_loop_raise del: shapes_loop.simps)
    next
      case (Cons ring0 holes)
      with True Cons.prems have "shapes_loop t (acc @ [vec_feature t vec]) rest = Inl err"
        by (simp add: shapes_loop_keep del: shapes_loop.simps)
      from Cons.IH [OF this] show ?thesis by auto
    qed
  qed
qed

lemma process_tif_output_Inr:
  "process_tif_output shapes src = Inr res \<Longrightarrow>
   res = map (vec_feature (transform src)) (filter kept (shapes (band1 src))) \<and>
   (\<forall>vec\<in>set (shapes (band1 src)). kept vec \<longrightarrow> coordinates (fst vec) \<noteq> [])"
  using shapes_loop_Inr [of "transform src" "[]" "shapes (band1 src)" res]
  by (simp add: process_tif_output_def)

lemma process_tif_output_total:
  "(\<forall>vec\<in>set (shapes (band1 src)). kept vec \<longrightarrow> coordinates (fst vec) \<noteq> []) \<Longrightarrow>
   process_tif_output shapes src =
     Inr (map (vec_feature (transform src)) (filter kept (shapes (band1 src))))"
  using shapes_loop_total [of "shapes (band1 src)" "transform src" "[]"]
  by (simp add: process_tif_output_def)

lemma process_tif_loop_entry:
  "process_tif_loop shapes to_file tif_dir names shp_dir path = Some out \<Longrightarrow>
   shp_dir path = Some out \<or>
   (\<exists>src\<in>snd ` set tif_dir. process_tif_output shapes src = Inr out)"
proof (induction names arbitrary: shp_dir)
  case Nil
  then show ?case by simp
next
  case (Cons tifs rest)
  show ?case
  proof (cases "endswith tifs ''.tif''")
    case False
    with Cons show ?thesis by simp
  next
    case True
    show ?thesis
    proof (cases "map_of tif_dir (splitext_root tifs @ ''.tif'')")
      case None
      with True Cons show ?thesis by (simp add: Let_def)
    next
      case (Some src)
      then have src: "src \<in> snd ` set tif_dir"
        by (force dest: map_of_SomeD)
      show ?thesis
      proof (cases "process_tif_output shapes src")
        case (Inl err)
        with True Some Cons show ?thesis by (simp add: Let_def)
      next
        case (Inr res)
        show ?thesis
        proof (cases "to_file res")
          case False
          with True Some Inr Cons show ?thesis by (simp add: Let_def)
        next
          case accepted: True
          with True Some Inr Cons.prems
          have "process_tif_loop shapes to_file tif_dir rest
                  (shp_dir(splitext_root tifs @ ''.shp'' \<mapsto> res)) path = Some out"
            by (simp add: Let_def)
          from Cons.IH [OF this] src Inr show ?thesis
            by (auto split: if_splits)
        qed
      qed
    qed
  qed
qed

lemma concat_grid_2x2: "r < 2 \<Longrightarrow> c < 2 \<Longrightarrow> set (concat (grid_2x2 r c)) = {3, 255}"
  by (auto simp add: grid_2x2_def)

section \<open>The loops of \<open>process_flood_tiff\<close>, \<open>pop_flood\<close> and \<open>flood_pop_overlay\<close>\<close>

lemma regions_loop_append:
  "regions_loop overlaps window opened gid_level cols (before @ after) tifs =
     (case regions_loop overlaps window opened gid_level cols before tifs of
        (written, Some err) \<Rightarrow> (written, Some err)
      | (written, None) \<Rightarrow> regions_loop overlaps window opened gid_level cols after written)"
proof (induction before arbitrary: tifs)
  case Nil
  show ?case by simp
next
  case (Cons region rest)
  show ?case
  proof (cases "gid_level \<in> set cols")
    case False
    then show ?thesis by simp
  next
    case True
    show ?thesis
    proof (cases "mask overlaps window (opened\<lparr>nodata := Some 255\<rparr>) (geom region)")
      case (Inl err)
      with True show ?thesis by (simp add: Let_def)
    next
      case (Inr out_img)
      with True
      have "regions_loop overlaps window opened gid_level cols ((region # rest) @ after) tifs =
              regions_loop overlaps window opened gid_level cols (rest @ after)
                (tifs(format_cell (map_of (cells region) gid_level) @ ''.tif'' \<mapsto> out_img))"
        and "regions_loop overlaps window opened gid_level cols (region # rest) tifs =
              regions_loop overlaps window opened gid_level cols rest
                (tifs(format_cell (map_of (cells region) gid_level) @ ''.tif'' \<mapsto> out_img))"
        by (simp_all add: Let_def)
      then show ?thesis by (simp only: Cons.IH)
    qed
  qed
qed

lemma regions_loop_overlapping:
  "gid_level \<in> set cols \<Longrightarrow>
   \<forall>region\<in>set regions. overlaps (opened\<lparr>nodata := Some 255\<rparr>) (geom region) \<Longrightarrow>
   snd (regions_loop overlaps window opened gid_level cols regions tifs) = None"
  by (induction regions arbitrary: tifs) (simp_all add: Let_def mask_def)

lemma regions_loop_no_overlap:
  assumes "gid_level \<in> set cols"
    and "\<forall>r\<in>set before. overlaps (opened\<lparr>nodata := Some 255\<rparr>) (geom r)"
    and "\<not> overlaps (opened\<lparr>nodata := Some 255\<rparr>) (geom region)"
  shows "regions_loop overlaps window opened gid_level cols (before @ region # after) tifs =
           (fst (regions_loop overlaps window opened gid_level cols before tifs), Some ValueError)"
proof -
  obtain written where w: "regions_loop overlaps window opened gid_level cols before tifs = (written, None)"
    using regions_loop_overlapping [of gid_level cols before overlaps opened window tifs] assms(1,2)
    by (cases "regions_loop overlaps window opened gid_level cols before tifs") auto
  have "regions_loop overlaps window opened gid_level cols (region # after) written =
          (written, Some ValueError)"
    using assms(1,3) by (simp add: Let_def mask_def)
  with w show ?thesis by (simp add: regions_loop_append)
qed

lemma countries_loop_skip:
  "\<forall>c\<in>set skipped. iso3 c \<noteq> country_iso3 self \<Longrightarrow>
   countries_loop overlaps window self (skipped @ rest) fs =
     countries_loop overlaps window self rest fs"
  by (induction skipped) simp_all

lemma pop_flood_loop_rows:
  "rows (pop_flood_loop combined_gdf dir) =
     rows combined_gdf @ concat (map (\<lambda>entry. rows (snd entry)) (filter is_shp dir))"
  by (induction dir arbitrary: combined_gdf) (simp_all add: is_shp_def append_frame_def Let_def)

lemma pop_flood_loop_columns:
  "set (columns (pop_flood_loop combined_gdf dir)) =
     set (columns combined_gdf) \<union> (\<Union>entry\<in>set (filter is_shp dir). set (columns (snd entry)))"
  by (induction dir arbitrary: combined_gdf) (auto simp add: is_shp_def append_frame_def Let_def)

lemma count_list_concat:
  "count_list (concat xss) x = sum_list (map (\<lambda>xs. count_list xs x) xss)"
  by (induction xss) simp_all

lemma pop_flood_countries:
  "pop_flood self (fs\<lparr>countries_csv := table\<rparr>) = pop_flood self fs"
  by (simp add: pop_flood_def)

lemma pop_flood_geometry:
  "''geometry'' \<in> set (columns (pop_flood self fs)) =
     (\<exists>entry\<in>set (shapefiles_dir fs (country_iso3 self)).
        is_shp entry \<and> ''geometry'' \<in> set (columns (snd entry)))"
  by (force simp add: pop_flood_def pop_flood_loop_columns)

lemma merge_Inr:
  "merge left right on = Inr pop_bound \<Longrightarrow>
   on \<in> set (columns left) \<and> on \<in> set (columns right) \<and>
   columns pop_bound = columns left @ filter (\<lambda>c. \<not> c = on) (columns right) \<and>
   set (rows pop_bound) =
     {(l, r). l \<in> set (rows left) \<and> r \<in> set (rows right) \<and> map_option Text (map_of (cells l) on) = map_of r on}"
  by (fastforce simp add: merge_def split: if_splits)

lemma set_map_filter_Some:
  "set (List.map_filter f xs) = {y. \<exists>x\<in>set xs. f x = Some y}"
  by (induction xs) (auto simp add: List.map_filter_simps split: option.splits)

lemma overlay_Inr:
  assumes "overlay intersects df1 df2 = Inr result"
  shows "''geometry'' \<in> set (columns df1) \<and> ''geometry'' \<in> set (columns df2) \<and>
   set result =
     {\<lparr>joined_row = r1, hazard_row = r2, shape = g\<rparr> | r1 r2 g.
        r1 \<in> set (rows df1) \<and> r2 \<in> set (rows df2) \<and> intersects (geom (fst r1)) (geom r2) = Some g}"
proof -
  from assms have cols: "''geometry'' \<in> set (columns df1) \<and> ''geometry'' \<in> set (columns df2)"
    by (auto simp add: overlay_def split: if_splits)
  with assms have "result = concat (map (\<lambda>r1. List.map_filter
                  (\<lambda>r2. map_option (\<lambda>g. \<lparr>joined_row = r1, hazard_row = r2, shape = g\<rparr>)
                          (intersects (geom (fst r1)) (geom r2)))
                  (rows df2)) (rows df1))"
    by (simp add: overlay_def)
  then have "set result =
     {\<lparr>joined_row = r1, hazard_row = r2, shape = g\<rparr> | r1 r2 g.
        r1 \<in> set (rows df1) \<and> r2 \<in> set (rows df2) \<and> intersects (geom (fst r1)) (geom r2) = Some g}"
    by (auto simp add: set_map_filter_Some)
  with cols show ?thesis by simp
qed

lemma overlay_loop_skip:
  "\<not> is_shp entry \<Longrightarrow>
   overlay_loop intersects self fs data (entry # rest) acc =
     overlay_loop intersects self fs data rest acc"
  by (simp add: is_shp_def)

lemma overlay_loop_shp:
  "is_shp entry \<Longrightarrow> merge (snd entry) data ''GID_1'' = Inr pop_bound \<Longrightarrow>
   overlay_loop intersects self fs data (entry # rest) acc =
     (case overlay intersects pop_bound (pop_flood self fs) of
        Inl err \<Rightarrow> Inl err
      | Inr result \<Rightarrow> overlay_loop intersects self fs data rest (Some result))"
  by (simp add: is_shp_def)

lemma overlay_loop_Inr:
  "overlay_loop intersects self fs data dir acc = Inr final \<Longrightarrow>
   (filter is_shp dir = [] \<and> final = acc) \<or>
   (filter is_shp dir \<noteq> [] \<and>
    (\<exists>pop_bound result.
       merge (snd (last (filter is_shp dir))) data ''GID_1'' = Inr pop_bound \<and>
       overlay intersects pop_bound (pop_flood self fs) = Inr result \<and>
       final = Some result))"
proof (induction dir arbitrary: acc)
  case Nil
  then show ?case by simp
next
  case (Cons entry rest)
  show ?case
  proof (cases "is_shp entry")
    case False
    with Cons show ?thesis by (simp add: is_shp_def)
  next
    case True
    with Cons.prems obtain pop_bound result where
      m: "merge (snd entry) data ''GID_1'' = Inr pop_bound" and
      ov: "overlay intersects pop_bound (pop_flood self fs) = Inr result" and
      re: "overlay_loop intersects self fs data rest (Some result) = Inr final"
      by (auto simp add: is_shp_def Let_def split: sum.splits)
    from Cons.IH [OF re] m ov True show ?thesis by auto
  qed
qed

lemma overlay_loop_countries:
  "overlay_loop intersects self (fs\<lparr>countries_csv := table\<rparr>) data dir acc =
   overlay_loop intersects self fs data dir acc"
  by (induction dir arbitrary: acc) (simp_all add: pop_flood_countries Let_def split: sum.splits)

lemma overlay_loop_shp_error:
  "is_shp entry \<Longrightarrow> merge (snd entry) data ''GID_1'' = Inl err \<Longrightarrow>
   overlay_loop intersects self fs data (entry # rest) acc = Inl err"
  by (simp add: is_shp_def)

lemma merge_wellformed:
  "on \<in> set (columns left) \<Longrightarrow> on \<in> set (columns right) \<Longrightarrow>
   merge left right on =
     (if rows left \<noteq> [] \<and> numeric_key right on then Inl ValueError
      else Inr \<lparr>columns = columns left @ filter (\<lambda>c. \<not> c = on) (columns right),
                rows = concat (map (\<lambda>l. map (\<lambda>r. (l, r))
                         (filter (\<lambda>r. map_option Text (map_of (cells l) on) = map_of r on)
                            (rows right)))
                         (rows left))\<rparr>)"
  by (simp add: merge_def)

lemma overlay_loop_wellformed:
  assumes "\<forall>entry\<in>set dir. is_shp entry \<longrightarrow>
             ''GID_1'' \<in> set (columns (snd entry)) \<and> ''geometry'' \<in> set (columns (snd entry))"
    and "''GID_1'' \<in> set (columns data)"
  shows "if ''geometry'' \<in> set (columns (pop_flood self fs))
         then (if numeric_key data ''GID_1'' \<and>
                  (\<exists>entry\<in>set dir. is_shp entry \<and> rows (snd entry) \<noteq> [])
               then overlay_loop intersects self fs data dir acc = Inl ValueError
               else \<exists>final. overlay_loop intersects self fs data dir acc = Inr final)
         else filter is_shp dir \<noteq> [] \<longrightarrow>
              overlay_loop intersects self fs data dir acc =
                Inl (if numeric_key data ''GID_1'' \<and> rows (snd (hd (filter is_shp dir))) \<noteq> []
                     then ValueError else AttributeError)"
  using assms(1)
proof (induction dir arbitrary: acc)
  case Nil
  then show ?case by simp
next
  case (Cons entry rest)
  show ?case
  proof (cases "is_shp entry")
    case False
    with Cons show ?thesis by (simp add: overlay_loop_skip del: overlay_loop.simps)
  next
    case True
    with Cons.prems have cols: "''GID_1'' \<in> set (columns (snd entry))"
      "''geometry'' \<in> set (columns (snd entry))" by simp_all
    show ?thesis
    proof (cases "rows (snd entry) \<noteq> [] \<and> numeric_key data ''GID_1''")
      case mismatch: True
      with cols assms(2) have "merge (snd entry) data ''GID_1'' = Inl ValueError"
        by (simp add: merge_wellformed)
      with True have "overlay_loop intersects self fs data (entry # rest) acc = Inl ValueError"
        by (rule overlay_loop_shp_error)
      with True mismatch show ?thesis by auto
    next
      case False
      with cols assms(2) obtain pop_bound where
        m: "merge (snd entry) data ''GID_1'' = Inr pop_bound" and
        g: "''geometry'' \<in> set (columns pop_bound)"
        by (auto simp add: merge_wellformed)
      show ?thesis
      proof (cases "''geometry'' \<in> set (columns (pop_flood self fs))")
        case nogeometry: False
        with g have "overlay intersects pop_bound (pop_flood self fs) = Inl AttributeError"
          by (simp add: overlay_def)
        with True m have "overlay_loop intersects self fs data (entry # rest) acc =
            Inl AttributeError"
          by (simp add: overlay_loop_shp del: overlay_loop.simps)
        with True False nogeometry show ?thesis by auto
      next
        case geometry: True
        with g obtain result where
          "overlay intersects pop_bound (pop_flood self fs) = Inr result"
          by (simp add: overlay_def)
        with True m have step: "overlay_loop intersects self fs data (entry # rest) acc =
            overlay_loop intersects self fs data rest (Some result)"
          by (simp add: overlay_loop_shp del: overlay_loop.simps)
        from Cons.prems have "\<forall>entry\<in>set rest. is_shp entry \<longrightarrow>
             ''GID_1'' \<in> set (columns (snd entry)) \<and> ''geometry'' \<in> set (columns (snd entry))"
          by simp
        from Cons.IH [OF this, of "Some result"] geometry
        have ih: "if numeric_key data ''GID_1'' \<and>
                  (\<exists>entry\<in>set rest. is_shp entry \<and> rows (snd entry) \<noteq> [])
               then overlay_loop intersects self fs data rest (Some result) = Inl ValueError
               else \<exists>final. overlay_loop intersects self fs data rest (Some result) = Inr final"
          by simp
        have "(numeric_key data ''GID_1'' \<and>
                (\<exists>e\<in>set (entry # rest). is_shp e \<and> rows (snd e) \<noteq> [])) =
              (numeric_key data ''GID_1'' \<and>
                (\<exists>e\<in>set rest. is_shp e \<and> rows (snd e) \<noteq> []))"
          using False by auto
        with ih step geometry show ?thesis by (simp del: overlay_loop.simps)
      qed
    qed
  qed
qed

lemma flood_pop_overlay_Inr:
  assumes "flood_pop_overlay intersects self fs = Inr result"
  shows "filter is_shp (regions_dir fs (country_iso3 self)) \<noteq> [] \<and>
    (\<exists>pop_bound.
       merge (snd (last (filter is_shp (regions_dir fs (country_iso3 self)))))
         (population_csv fs (pop_csv self)) ''GID_1'' = Inr pop_bound \<and>
       overlay intersects pop_bound (pop_flood self fs) = Inr result)"
proof -
  from assms have "overlay_loop intersects self fs (population_csv fs (pop_csv self))
      (regions_dir fs (country_iso3 self)) None = Inr (Some result)"
    by (auto simp add: flood_pop_overlay_def Let_def split: sum.splits option.splits)
  from overlay_loop_Inr [OF this] show ?thesis by auto
qed

section \<open>The sample inputs, evaluated\<close>

lemma sample_output: "process_tif_output sample_shapes sample_src = Inr [sample_feature]"
  by (simp add: process_tif_output_def sample_shapes_def sample_src_def sample_cell_def
      sample_rest_def sample_feature_def sample_affine_def affine_mul_def)

lemma sample_output_hole:
  "process_tif_output sample_shapes sample_src_hole = Inr [sample_feature_hole]"
  by (simp add: process_tif_output_def sample_shapes_def sample_src_hole_def sample_hole_def
      sample_feature_hole_def sample_affine_def affine_mul_def)

lemma sample_process_tif:
  "process_tif sample_shapes (\<lambda>fs. True) [(''KEN.1_1.tif'', sample_src)] Map.empty ''KEN.1_1.shp'' = Some [sample_feature]"
  by (simp add: process_tif_def endswith_def splitext_root_def sample_output)

lemma is_shp_simps:
  "is_shp (''gadm_1.dbf'', x) = False" "is_shp (''gadm_1.shp'', x) = True"
  "is_shp (''KEN.1_1.shp'', y) = True" "is_shp (''KEN.1_1.dbf'', y) = False"
  "is_shp (''KEN.3_1.shp'', y) = True"
  by (simp_all add: is_shp_def endswith_def)

lemma sample_pop_flood:
  "pop_flood sample_self sample_files =
     \<lparr>columns = [''value'', ''geometry''], rows = [sample_hazard_row, sample_hazard_row]\<rparr>"
  by (simp add: pop_flood_def sample_files_def sample_self_def sample_hazards_def endswith_def
      append_frame_def)

lemma sample_merge:
  "merge sample_regions sample_population ''GID_1'' =
      Inr \<lparr>columns = [''GID_1'', ''geometry'', ''population''],
           rows = [(sample_region ''KEN.1_1'' (0, 0, 5, 5),
                    [(''GID_1'', Text ''KEN.1_1''), (''population'', Number 100)])]\<rparr>"
  by (simp add: merge_def numeric_key_def sample_regions_def sample_population_def sample_region_def)

lemma sample_boundaries:
  "snd (last (filter is_shp (regions_dir sample_files (country_iso3 sample_self)))) = sample_regions"
  by (simp add: sample_files_def is_shp_simps)

lemma sample_data: "population_csv sample_files (pop_csv sample_self) = sample_population"
  by (simp add: sample_files_def)

lemma sample_overlay:
  "flood_pop_overlay sample_intersects sample_self sample_files =
     Inr [sample_exposure, sample_exposure]"
proof -
  have m: "merge sample_regions sample_population ''GID_1'' =
      Inr \<lparr>columns = [''GID_1'', ''geometry'', ''population''],
           rows = [(sample_region ''KEN.1_1'' (0, 0, 5, 5),
                    [(''GID_1'', Text ''KEN.1_1''), (''population'', Number 100)])]\<rparr>"
    by (simp add: merge_def numeric_key_def sample_regions_def sample_population_def sample_region_def)
  have ov: "overlay sample_intersects
      \<lparr>columns = [''GID_1'', ''geometry'', ''population''],
       rows = [(sample_region ''KEN.1_1'' (0, 0, 5, 5),
                [(''GID_1'', Text ''KEN.1_1''), (''population'', Number 100)])]\<rparr>
      (pop_flood sample_self sample_files) = Inr [sample_exposure, sample_exposure]"
    by (simp add: sample_pop_flood overlay_def List.map_filter_def sample_exposure_def
        sample_region_def sample_hazard_row_def sample_intersects_def)
  have "overlay_loop sample_intersects sample_self sample_files sample_population
          [(''gadm_1.dbf'', \<lparr>columns = [], rows = []\<rparr>), (''gadm_1.shp'', sample_regions)] None =
        Inr (Some [sample_exposure, sample_exposure])"
    using overlay_loop_shp [of "(''gadm_1.shp'', sample_regions)" sample_population _
        sample_intersects sample_self sample_files "[]" None] m
    by (simp add: overlay_loop_skip is_shp_simps ov del: overlay_loop.simps(2))
  then show ?thesis
    by (simp add: flood_pop_overlay_def sample_files_def sample_self_def)
qed

lemma sample_unmatched_merge:
  "merge sample_regions (population_csv sample_unmatched (pop_csv sample_self)) ''GID_1'' =
     Inr \<lparr>columns = [''GID_1'', ''geometry'', ''population''], rows = []\<rparr>"
  by (simp add: sample_unmatched_def merge_def numeric_key_def sample_regions_def sample_region_def)

lemma sample_unmatched_pop_flood:
  "pop_flood sample_self sample_unmatched = pop_flood sample_self sample_files"
  by (simp add: pop_flood_def sample_unmatched_def)

section \<open>Clipping\<close>

text \<open>
  C1 (as amended). For a region whose geometry does not overlap the hazard raster, the
  mask step of \<open>process_flood_tiff\<close> raises \<open>ValueError\<close> and nothing catches it: the
  call ends with that error, the folder of clipped rasters holds what the regions before
  it wrote, and nothing is written for that region or for the regions after it. Stated
  for the first country row that matches the object's country code, and the first
  region of its file that does not overlap.
\<close>

theorem process_flood_tiff_no_overlap:
  assumes "countries_csv fs (csv_filename self) = skipped @ country # others"
    and "\<forall>c\<in>set skipped. iso3 c \<noteq> country_iso3 self"
    and "iso3 country = country_iso3 self"
    and "map_of (regions_dir fs (iso3 country)) (''gadm_'' @ gid_region country @ ''.shp'') = Some regions"
    and "''GID_'' @ gid_region country \<in> set (columns regions)"
    and "rows regions = before @ region # after"
    and "\<forall>r\<in>set before. overlaps ((flood_hazard fs (flood_tiff self))\<lparr>nodata := Some 255\<rparr>) (geom r)"
    and "\<not> overlaps ((flood_hazard fs (flood_tiff self))\<lparr>nodata := Some 255\<rparr>) (geom region)"
  shows "snd (process_flood_tiff overlaps window self fs) = Some ValueError \<and>
         tifs_dir (fst (process_flood_tiff overlaps window self fs)) (country_iso3 self) =
           fst (regions_loop overlaps window (flood_hazard fs (flood_tiff self))
                  (''GID_'' @ gid_region country) (columns regions) before
                  (tifs_dir fs (country_iso3 self)))"
proof -
  let ?loop = "\<lambda>rs. regions_loop overlaps window (flood_hazard fs (flood_tiff self))
                  (''GID_'' @ gid_region country) (columns regions) rs
                  (tifs_dir fs (country_iso3 self))"
  have r: "?loop (rows regions) = (fst (?loop before), Some ValueError)"
    using regions_loop_no_overlap [of "''GID_'' @ gid_region country" "columns regions" before
        overlaps "flood_hazard fs (flood_tiff self)" region window after
        "tifs_dir fs (country_iso3 self)"] assms(5,6,7,8) by simp
  have "process_flood_tiff overlaps window self fs =
          countries_loop overlaps window self (country # others) fs"
    using assms(1,2) by (simp add: process_flood_tiff_def countries_loop_skip)
  also have "\<dots> = (fs\<lparr>tifs_dir := (tifs_dir fs)(country_iso3 self := fst (?loop before))\<rparr>,
                    Some ValueError)"
    using assms(3,4) r by (simp add: Let_def)
  finally show ?thesis by simp
qed

text \<open>
  The sample country has three regions; the second lies outside the raster. The call
  ends with \<open>ValueError\<close>, the first region is written, the second and the third
  (which overlaps) are not.
\<close>

theorem process_flood_tiff_no_overlap_witness:
  "snd (process_flood_tiff sample_overlaps sample_window sample_self sample_files) = Some ValueError \<and>
   tifs_dir (fst (process_flood_tiff sample_overlaps sample_window sample_self sample_files))
     ''KEN'' ''KEN.1_1.tif'' = Some (0, 0, 5, 5) \<and>
   tifs_dir (fst (process_flood_tiff sample_overlaps sample_window sample_self sample_files))
     ''KEN'' ''KEN.2_1.tif'' = None \<and>
   tifs_dir (fst (process_flood_tiff sample_overlaps sample_window sample_self sample_files))
     ''KEN'' ''KEN.3_1.tif'' = None"
  using process_flood_tiff_no_overlap [where fs = sample_files and self = sample_self
      and skipped = "[\<lparr>iso3 = ''UGA'', gid_region = ''1''\<rparr>]"
      and country = "\<lparr>iso3 = ''KEN'', gid_region = ''1''\<rparr>" and others = "[]"
      and regions = sample_regions
      and before = "[sample_region ''KEN.1_1'' (0, 0, 5, 5)]"
      and region = "sample_region ''KEN.2_1'' (20, 20, 30, 30)"
      and after = "[sample_region ''KEN.3_1'' (5, 5, 10, 10)]"
      and overlaps = sample_overlaps and window = sample_window]
  by (simp add: sample_defs mask_def format_cell_def Let_def)

text \<open>
  C1 as stated fails: a region of the sample does not overlap the raster, and
  \<open>process_flood_tiff\<close> raises instead of producing an empty result.
\<close>

theorem process_flood_tiff_no_overlap_counterexample:
  "\<not> sample_overlaps ((flood_hazard sample_files (flood_tiff sample_self))\<lparr>nodata := Some 255\<rparr>)
       (geom (sample_region ''KEN.2_1'' (20, 20, 30, 30))) \<and>
   sample_region ''KEN.2_1'' (20, 20, 30, 30) \<in> set (rows sample_regions) \<and>
   snd (process_flood_tiff sample_overlaps sample_window sample_self sample_files) = Some ValueError"
  by (simp add: process_flood_tiff_def sample_defs mask_def format_cell_def Let_def)

section \<open>Vectorizing\<close>

text \<open>
  C2. Every feature of a shapefile that \<open>process_tif\<close> writes has a value greater than 0
  and different from the no-data value 255: shapes traced from cells holding 0 or 255
  are not among them.
\<close>

theorem process_tif_values:
  assumes "process_tif shapes to_file tif_dir shp_dir path_out = Some out"
    and "shp_dir path_out \<noteq> Some out"
    and "f \<in> set out"
  shows "0 < fvalue f \<and> fvalue f \<noteq> 255"
proof -
  from assms(1,2) obtain src where "process_tif_output shapes src = Inr out"
    using process_tif_loop_entry [of shapes to_file tif_dir "map fst tif_dir" shp_dir path_out out]
    by (auto simp add: process_tif_def)
  then have "out = map (vec_feature (transform src)) (filter kept (shapes (band1 src)))"
    by (simp add: process_tif_output_Inr)
  with assms(3) obtain vec where "kept vec" and "f = vec_feature (transform src) vec"
    by auto
  then show ?thesis by (simp add: kept_def vec_feature_def)
qed

theorem process_tif_values_witness:
  "process_tif sample_shapes (\<lambda>fs. True) [(''KEN.1_1.tif'', sample_src)] Map.empty ''KEN.1_1.shp''
     = Some [sample_feature] \<and>
   Map.empty ''KEN.1_1.shp'' \<noteq> Some [sample_feature] \<and>
   sample_feature \<in> set [sample_feature] \<and>
   0 < fvalue sample_feature \<and> fvalue sample_feature \<noteq> 255"
proof -
  have h2: "Map.empty ''KEN.1_1.shp'' \<noteq> Some [sample_feature]" by simp
  have h3: "sample_feature \<in> set [sample_feature]" by simp
  from process_tif_values [OF sample_process_tif h2 h3] sample_process_tif h2 h3
  show ?thesis by simp
qed

text \<open>
  C3. For the 2 x 2 raster with one cell of value 3 and no-data elsewhere, and a tracer
  that yields the outline of that cell as the only shape of value 3 (and values of cells
  only), the output is exactly one feature, its value is 3, and its ring has as vertices
  the images of the cell's corners under the raster's transform: the cell's footprint.
\<close>

theorem process_tif_single_cell:
  assumes "r < 2" and "c < 2" and "band1 src = grid_2x2 r c"
    and "traces_cell_values shapes (band1 src)"
    and "filter (\<lambda>vec. snd vec = 3) (shapes (band1 src)) = [(poly, 3)]"
    and "coordinates poly = [ring]"
    and "set ring = cell_corners r c"
  shows "\<exists>f ring2. process_tif_output shapes src = Inr [f] \<and> fvalue f = 3 \<and>
           coordinates (geometry f) = [ring2] \<and>
           set ring2 = affine_mul (transform src) ` cell_corners r c"
proof -
  let ?vecs = "shapes (band1 src)"
  from assms(1-4) have vals: "\<forall>vec\<in>set ?vecs. snd vec = 3 \<or> snd vec = 255"
    using concat_grid_2x2 [of r c] by (auto simp add: traces_cell_values_def)
  then have "filter kept ?vecs = filter (\<lambda>vec. snd vec = 3) ?vecs"
    by (intro filter_cong) (auto simp add: kept_def)
  with assms(5) have k: "filter kept ?vecs = [(poly, 3)]" by simp
  have "coordinates (fst vec) \<noteq> []" if "vec \<in> set ?vecs" "kept vec" for vec
  proof -
    from that have "vec \<in> set (filter kept ?vecs)" by simp
    with k assms(6) show ?thesis by simp
  qed
  then have "process_tif_output shapes src = Inr [vec_feature (transform src) (poly, 3)]"
    using process_tif_output_total [of shapes src] k by auto
  moreover have "coordinates (geometry (vec_feature (transform src) (poly, 3))) =
                   [map (affine_mul (transform src)) ring]"
    using assms(6) by (simp add: vec_feature_def)
  moreover have "set (map (affine_mul (transform src)) ring) =
                   affine_mul (transform src) ` cell_corners r c"
    using assms(7) by simp
  moreover have "fvalue (vec_feature (transform src) (poly, 3)) = 3"
    by (simp add: vec_feature_def)
  ultimately show ?thesis by blast
qed

theorem process_tif_single_cell_witness:
  "\<exists>f ring2. process_tif_output sample_shapes sample_src = Inr [f] \<and> fvalue f = 3 \<and>
           coordinates (geometry f) = [ring2] \<and>
           set ring2 = affine_mul (transform sample_src) ` cell_corners 0 1"
proof -
  have "band1 sample_src = grid_2x2 0 1"
    by (simp add: sample_src_def grid_2x2_def)
  moreover have "traces_cell_values sample_shapes (band1 sample_src)"
    by (simp add: traces_cell_values_def sample_shapes_def sample_src_def)
  moreover have "filter (\<lambda>vec. snd vec = 3) (sample_shapes (band1 sample_src)) = [(sample_cell, 3)]"
    by (simp add: sample_shapes_def sample_src_def)
  moreover have "coordinates sample_cell = [[(1, 0), (1, 1), (2, 1), (2, 0), (1, 0)]]"
    by (simp add: sample_cell_def)
  moreover have "set [(1, 0), (1, 1), (2, 1), (2, 0), (1::real, 0::real)] = cell_corners 0 1"
    by (auto simp add: cell_corners_def)
  ultimately show ?thesis
    using process_tif_single_cell [of 0 1 sample_src sample_shapes sample_cell] by simp
qed

text \<open>
  C4. The output has one feature for every kept shape, in order, and the ring of the
  feature has, vertex for vertex, the transform's image of the vertices of the shape's
  first ring.
\<close>

theorem process_tif_vertices:
  assumes "process_tif_output shapes src = Inr res"
  shows "length res = length (filter kept (shapes (band1 src))) \<and>
         (\<forall>k<length res. \<exists>ring0 holes ring.
            coordinates (fst (filter kept (shapes (band1 src)) ! k)) = ring0 # holes \<and>
            coordinates (geometry (res ! k)) = [ring] \<and>
            length ring = length ring0 \<and>
            (\<forall>j<length ring0. ring ! j = affine_mul (transform src) (ring0 ! j)))"
proof -
  let ?vecs = "filter kept (shapes (band1 src))"
  from assms have res: "res = map (vec_feature (transform src)) ?vecs"
    and ne: "\<forall>vec\<in>set (shapes (band1 src)). kept vec \<longrightarrow> coordinates (fst vec) \<noteq> []"
    by (simp_all add: process_tif_output_Inr)
  have "\<exists>ring0 holes ring.
            coordinates (fst (?vecs ! k)) = ring0 # holes \<and>
            coordinates (geometry (res ! k)) = [ring] \<and>
            length ring = length ring0 \<and>
            (\<forall>j<length ring0. ring ! j = affine_mul (transform src) (ring0 ! j))"
    if k: "k < length res" for k
  proof -
    from k res have "k < length ?vecs" by simp
    then have "?vecs ! k \<in> set ?vecs" by (rule nth_mem)
    then have "?vecs ! k \<in> set (shapes (band1 src)) \<and> kept (?vecs ! k)"
      by (simp only: set_filter mem_Collect_eq)
    with ne have "coordinates (fst (?vecs ! k)) \<noteq> []" by auto
    then obtain ring0 holes where r0: "coordinates (fst (?vecs ! k)) = ring0 # holes"
      by (cases "coordinates (fst (?vecs ! k))") auto
    from k res have "res ! k = vec_feature (transform src) (?vecs ! k)" by simp
    with r0 have "coordinates (geometry (res ! k)) = [map (affine_mul (transform src)) ring0]"
      by (simp add: vec_feature_def)
    with r0 show ?thesis by simp
  qed
  with res show ?thesis by simp
qed

theorem process_tif_vertices_witness:
  "process_tif_output sample_shapes sample_src = Inr [sample_feature] \<and>
   (\<exists>ring0 holes ring.
       coordinates (fst (filter kept (sample_shapes (band1 sample_src)) ! 0)) = ring0 # holes \<and>
       coordinates (geometry ([sample_feature] ! 0)) = [ring] \<and>
       length ring = length ring0 \<and>
       (\<forall>j<length ring0. ring ! j = affine_mul (transform sample_src) (ring0 ! j)))"
proof -
  from process_tif_vertices [OF sample_output]
  have "\<forall>k<length [sample_feature]. \<exists>ring0 holes ring.
       coordinates (fst (filter kept (sample_shapes (band1 sample_src)) ! k)) = ring0 # holes \<and>
       coordinates (geometry ([sample_feature] ! k)) = [ring] \<and>
       length ring = length ring0 \<and>
       (\<forall>j<length ring0. ring ! j = affine_mul (transform sample_src) (ring0 ! j))"
    by (rule conjunct2)
  moreover have "0 < length [sample_feature]" by simp
  ultimately have "\<exists>ring0 holes ring.
       coordinates (fst (filter kept (sample_shapes (band1 sample_src)) ! 0)) = ring0 # holes \<and>
       coordinates (geometry ([sample_feature] ! 0)) = [ring] \<and>
       length ring = length ring0 \<and>
       (\<forall>j<length ring0. ring ! j = affine_mul (transform sample_src) (ring0 ! j))"
    by blast
  with sample_output show ?thesis by (rule conjI)
qed

text \<open>
  C5. For a raster all of whose cells hold the no-data value 255 (and a tracer that
  yields values of cells only), the output is the empty list.
\<close>

theorem process_tif_uniform_nodata:
  assumes "traces_cell_values shapes (band1 src)"
    and "\<forall>v\<in>set (concat (band1 src)). v = 255"
  shows "process_tif_output shapes src = Inr []"
proof -
  from assms have "\<forall>vec\<in>set (shapes (band1 src)). \<not> kept vec"
    by (auto simp add: traces_cell_values_def kept_def)
  then have "filter kept (shapes (band1 src)) = []"
    by (simp add: filter_empty_conv)
  moreover from \<open>\<forall>vec\<in>set (shapes (band1 src)). \<not> kept vec\<close>
  have "\<forall>vec\<in>set (shapes (band1 src)). kept vec \<longrightarrow> coordinates (fst vec) \<noteq> []" by simp
  ultimately show ?thesis by (simp add: process_tif_output_total)
qed

theorem process_tif_uniform_nodata_witness:
  "traces_cell_values sample_shapes (band1 sample_src_nodata) \<and>
   set (concat (band1 sample_src_nodata)) = {255} \<and>
   process_tif_output sample_shapes sample_src_nodata = Inr []"
proof -
  have h1: "traces_cell_values sample_shapes (band1 sample_src_nodata)"
    by (simp add: traces_cell_values_def sample_shapes_def sample_src_nodata_def)
  have h2: "\<forall>v\<in>set (concat (band1 sample_src_nodata)). v = 255"
    by (simp add: sample_src_nodata_def)
  have h3: "set (concat (band1 sample_src_nodata)) = {255}"
    by (simp add: sample_src_nodata_def)
  from process_tif_uniform_nodata [OF h1 h2] h1 h3 show ?thesis by simp
qed

text \<open>
  C10. Every feature of the output has exactly one ring, and the output is the same when
  the interior rings of every traced shape are removed beforehand: only the first ring
  of a shape reaches the output.
\<close>

theorem process_tif_first_ring_only:
  assumes "process_tif_output shapes src = Inr res"
  shows "(\<forall>f\<in>set res. length (coordinates (geometry f)) = 1) \<and>
         process_tif_output (\<lambda>array. map drop_holes (shapes array)) src = Inr res"
proof -
  let ?vecs = "shapes (band1 src)"
  from assms have res: "res = map (vec_feature (transform src)) (filter kept ?vecs)"
    and ne: "\<forall>vec\<in>set ?vecs. kept vec \<longrightarrow> coordinates (fst vec) \<noteq> []"
    by (simp_all add: process_tif_output_Inr)
  have one: "length (coordinates (geometry f)) = 1" if "f \<in> set res" for f
  proof -
    from that res obtain vec where "vec \<in> set ?vecs" "kept vec" "f = vec_feature (transform src) vec"
      by auto
    with ne show ?thesis by (cases "coordinates (fst vec)") (auto simp add: vec_feature_def)
  qed
  have k: "kept (drop_holes vec) = kept vec" for vec
    by (simp add: kept_def drop_holes_def)
  have v: "vec_feature t (drop_holes vec) = vec_feature t vec" for t vec
    by (simp add: vec_feature_def drop_holes_def)
  have c: "coordinates (fst (drop_holes vec)) \<noteq> []" if "coordinates (fst vec) \<noteq> []" for vec
    using that by (cases "coordinates (fst vec)") (simp_all add: drop_holes_def)
  have "filter kept (map drop_holes ?vecs) = map drop_holes (filter kept ?vecs)"
    by (simp add: filter_map comp_def k)
  then have "map (vec_feature (transform src)) (filter kept (map drop_holes ?vecs)) = res"
    using res by (simp add: comp_def v)
  moreover have "\<forall>vec\<in>set (map drop_holes ?vecs). kept vec \<longrightarrow> coordinates (fst vec) \<noteq> []"
    using ne c by (auto simp add: k)
  ultimately have "process_tif_output (\<lambda>array. map drop_holes (shapes array)) src = Inr res"
    using process_tif_output_total [of "\<lambda>array. map drop_holes (shapes array)" src] by simp
  with one show ?thesis by simp
qed

theorem process_tif_first_ring_only_witness:
  "process_tif_output sample_shapes sample_src_hole = Inr [sample_feature_hole] \<and>
   length (coordinates sample_hole) = 2 \<and>
   length (coordinates (geometry sample_feature_hole)) = 1 \<and>
   process_tif_output (\<lambda>array. map drop_holes (sample_shapes array)) sample_src_hole =
     Inr [sample_feature_hole]"
  using process_tif_first_ring_only [OF sample_output_hole] sample_output_hole
  by (simp add: sample_hole_def)

section \<open>Combining the hazard shapefiles\<close>

text \<open>
  C6. \<open>pop_flood\<close> returns the rows of all shapefiles of the country's folder, one file
  after the other: the number of rows is the sum over the files, and every row occurs as
  often as in all files together (nothing is merged or removed).
\<close>

theorem pop_flood_concatenation:
  "rows (pop_flood self fs) =
     concat (map (\<lambda>entry. rows (snd entry)) (filter is_shp (shapefiles_dir fs (country_iso3 self)))) \<and>
   length (rows (pop_flood self fs)) =
     sum_list (map (\<lambda>entry. length (rows (snd entry)))
       (filter is_shp (shapefiles_dir fs (country_iso3 self)))) \<and>
   count_list (rows (pop_flood self fs)) rec =
     sum_list (map (\<lambda>entry. count_list (rows (snd entry)) rec)
       (filter is_shp (shapefiles_dir fs (country_iso3 self))))"
proof -
  let ?files = "filter is_shp (shapefiles_dir fs (country_iso3 self))"
  have r: "rows (pop_flood self fs) = concat (map (\<lambda>entry. rows (snd entry)) ?files)"
    by (simp add: pop_flood_def pop_flood_loop_rows)
  have "length (concat (map (\<lambda>entry. rows (snd entry)) ?files)) =
          sum_list (map (\<lambda>entry. length (rows (snd entry))) ?files)"
    by (simp add: length_concat comp_def)
  moreover have "count_list (concat (map (\<lambda>entry. rows (snd entry)) ?files)) rec =
          sum_list (map (\<lambda>entry. count_list (rows (snd entry)) rec) ?files)"
    by (simp add: count_list_concat comp_def)
  ultimately show ?thesis using r by simp
qed

theorem pop_flood_concatenation_witness:
  "rows (pop_flood sample_self sample_files) = [sample_hazard_row, sample_hazard_row] \<and>
   length (rows (pop_flood sample_self sample_files)) = 2 \<and>
   count_list (rows (pop_flood sample_self sample_files)) sample_hazard_row = 2"
  using pop_flood_concatenation [of sample_self sample_files sample_hazard_row]
  by (simp add: sample_files_def sample_self_def is_shp_simps sample_hazards_def)

section \<open>The overlay\<close>

text \<open>
  C7. When \<open>flood_pop_overlay\<close> returns, the boundaries (of the last shapefile of the
  regions folder) were joined with the population table on the region code as an inner
  join: the joined rows are exactly the pairs with equal codes, a boundary row or a
  population row without a partner is in no joined row; and the rows of the result are
  exactly those made of a joined row and a hazard row whose geometries intersect, each
  carrying both source rows and the intersection.
\<close>

theorem flood_pop_overlay_inner_join:
  assumes "flood_pop_overlay intersects self fs = Inr result"
  shows "\<exists>pop_bound.
     merge (snd (last (filter is_shp (regions_dir fs (country_iso3 self)))))
       (population_csv fs (pop_csv self)) ''GID_1'' = Inr pop_bound \<and>
     set (rows pop_bound) =
       {(b, p). b \<in> set (rows (snd (last (filter is_shp (regions_dir fs (country_iso3 self)))))) \<and>
                p \<in> set (rows (population_csv fs (pop_csv self))) \<and>
                map_option Text (map_of (cells b) ''GID_1'') = map_of p ''GID_1''} \<and>
     (\<forall>b. (\<forall>p\<in>set (rows (population_csv fs (pop_csv self))).
              map_option Text (map_of (cells b) ''GID_1'') \<noteq> map_of p ''GID_1'') \<longrightarrow>
          b \<notin> fst ` set (rows pop_bound)) \<and>
     (\<forall>p. (\<forall>b\<in>set (rows (snd (last (filter is_shp (regions_dir fs (country_iso3 self)))))).
              map_option Text (map_of (cells b) ''GID_1'') \<noteq> map_of p ''GID_1'') \<longrightarrow>
          p \<notin> snd ` set (rows pop_bound)) \<and>
     set result =
       {\<lparr>joined_row = j, hazard_row = h, shape = g\<rparr> | j h g.
          j \<in> set (rows pop_bound) \<and> h \<in> set (rows (pop_flood self fs)) \<and>
          intersects (geom (fst j)) (geom h) = Some g}"
proof -
  let ?boundaries = "snd (last (filter is_shp (regions_dir fs (country_iso3 self))))"
  let ?data = "population_csv fs (pop_csv self)"
  from flood_pop_overlay_Inr [OF assms] obtain pop_bound where
    m: "merge ?boundaries ?data ''GID_1'' = Inr pop_bound" and
    ov: "overlay intersects pop_bound (pop_flood self fs) = Inr result"
    by auto
  from merge_Inr [OF m] have j: "set (rows pop_bound) =
       {(b, p). b \<in> set (rows ?boundaries) \<and> p \<in> set (rows ?data) \<and>
                map_option Text (map_of (cells b) ''GID_1'') = map_of p ''GID_1''}"
    by simp
  have "b \<notin> fst ` set (rows pop_bound)"
    if "\<forall>p\<in>set (rows ?data). map_option Text (map_of (cells b) ''GID_1'') \<noteq> map_of p ''GID_1''" for b
    using that j by auto
  moreover have "p \<notin> snd ` set (rows pop_bound)"
    if "\<forall>b\<in>set (rows ?boundaries). map_option Text (map_of (cells b) ''GID_1'') \<noteq> map_of p ''GID_1''" for p
    using that j by auto
  moreover from overlay_Inr [OF ov] have "set result =
       {\<lparr>joined_row = j, hazard_row = h, shape = g\<rparr> | j h g.
          j \<in> set (rows pop_bound) \<and> h \<in> set (rows (pop_flood self fs)) \<and>
          intersects (geom (fst j)) (geom h) = Some g}"
    by simp
  ultimately show ?thesis using m j by blast
qed

theorem flood_pop_overlay_inner_join_witness:
  "flood_pop_overlay sample_intersects sample_self sample_files =
     Inr [sample_exposure, sample_exposure] \<and>
   (\<exists>pop_bound.
     merge sample_regions sample_population ''GID_1'' = Inr pop_bound \<and>
     sample_region ''KEN.2_1'' (20, 20, 30, 30) \<notin> fst ` set (rows pop_bound) \<and>
     [(''GID_1'', Text ''KEN.9_1''), (''population'', Number 5)] \<notin> snd ` set (rows pop_bound))"
proof -
  from flood_pop_overlay_inner_join [OF sample_overlay, unfolded sample_boundaries sample_data]
  obtain pop_bound where
    m: "merge sample_regions sample_population ''GID_1'' = Inr pop_bound"
    and a: "\<forall>b. (\<forall>p\<in>set (rows sample_population).
              map_option Text (map_of (cells b) ''GID_1'') \<noteq> map_of p ''GID_1'') \<longrightarrow>
          b \<notin> fst ` set (rows pop_bound)"
    and b: "\<forall>p. (\<forall>b\<in>set (rows sample_regions).
              map_option Text (map_of (cells b) ''GID_1'') \<noteq> map_of p ''GID_1'') \<longrightarrow>
          p \<notin> snd ` set (rows pop_bound)"
    by (elim exE conjE) (rule that)
  have "sample_region ''KEN.2_1'' (20, 20, 30, 30) \<notin> fst ` set (rows pop_bound)"
    by (rule a [rule_format]) (auto simp add: sample_population_def sample_region_def)
  moreover have "[(''GID_1'', Text ''KEN.9_1''), (''population'', Number 5)] \<notin> snd ` set (rows pop_bound)"
    by (rule b [rule_format]) (auto simp add: sample_regions_def sample_region_def)
  ultimately show ?thesis using sample_overlay m by (intro conjI exI)
qed

text \<open>
  C8 (as amended). \<open>flood_pop_overlay\<close> has no check for empty inputs and raises no
  \<open>OverlayError\<close>. With a shapefile in the regions folder, the key and geometry columns
  in place and no column named \<open>geometry\<close> in the population table (the merge would
  rename it): when a hazard shapefile was read (the combined frame has a geometry column),
  the call fails with \<open>ValueError\<close> if the population key column is numeric and a region
  shapefile has rows, and otherwise returns the intersections, an empty result when the
  join is empty, when the combined hazard frame has no rows, or when no geometries
  intersect; when no hazard shapefile was read, the call fails, with \<open>ValueError\<close> from
  the merge of the first region shapefile or else with \<open>AttributeError\<close> from the overlay.
\<close>

theorem flood_pop_overlay_empty_inputs:
  assumes "filter is_shp (regions_dir fs (country_iso3 self)) \<noteq> []"
    and "\<forall>entry\<in>set (regions_dir fs (country_iso3 self)). is_shp entry \<longrightarrow>
           ''GID_1'' \<in> set (columns (snd entry)) \<and> ''geometry'' \<in> set (columns (snd entry))"
    and "''GID_1'' \<in> set (columns (population_csv fs (pop_csv self)))"
    and "''geometry'' \<notin> set (columns (population_csv fs (pop_csv self)))"
  shows "if \<exists>entry\<in>set (shapefiles_dir fs (country_iso3 self)).
              is_shp entry \<and> ''geometry'' \<in> set (columns (snd entry))
         then (if numeric_key (population_csv fs (pop_csv self)) ''GID_1'' \<and>
                  (\<exists>entry\<in>set (regions_dir fs (country_iso3 self)).
                     is_shp entry \<and> rows (snd entry) \<noteq> [])
               then flood_pop_overlay intersects self fs = Inl ValueError
               else \<exists>pop_bound result.
                merge (snd (last (filter is_shp (regions_dir fs (country_iso3 self)))))
                  (population_csv fs (pop_csv self)) ''GID_1'' = Inr pop_bound \<and>
                flood_pop_overlay intersects self fs = Inr result \<and>
                (rows pop_bound = [] \<longrightarrow> result = []) \<and>
                (rows (pop_flood self fs) = [] \<longrightarrow> result = []) \<and>
                ((\<forall>r1\<in>set (rows pop_bound). \<forall>r2\<in>set (rows (pop_flood self fs)).
                    intersects (geom (fst r1)) (geom r2) = None) \<longrightarrow> result = []))
         else flood_pop_overlay intersects self fs =
                Inl (if numeric_key (population_csv fs (pop_csv self)) ''GID_1'' \<and>
                        rows (snd (hd (filter is_shp (regions_dir fs (country_iso3 self))))) \<noteq> []
                     then ValueError else AttributeError)"
proof (cases "''geometry'' \<in> set (columns (pop_flood self fs))")
  case False
  with overlay_loop_wellformed [OF assms(2,3), of self fs intersects None] assms(1)
  have "overlay_loop intersects self fs (population_csv fs (pop_csv self))
          (regions_dir fs (country_iso3 self)) None =
        Inl (if numeric_key (population_csv fs (pop_csv self)) ''GID_1'' \<and>
                rows (snd (hd (filter is_shp (regions_dir fs (country_iso3 self))))) \<noteq> []
             then ValueError else AttributeError)"
    by simp
  then have "flood_pop_overlay intersects self fs =
        Inl (if numeric_key (population_csv fs (pop_csv self)) ''GID_1'' \<and>
                rows (snd (hd (filter is_shp (regions_dir fs (country_iso3 self))))) \<noteq> []
             then ValueError else AttributeError)"
    by (simp add: flood_pop_overlay_def)
  with False show ?thesis by (simp add: pop_flood_geometry)
next
  case True
  then have hazard: "\<exists>entry\<in>set (shapefiles_dir fs (country_iso3 self)).
              is_shp entry \<and> ''geometry'' \<in> set (columns (snd entry))"
    by (simp add: pop_flood_geometry)
  show ?thesis
  proof (cases "numeric_key (population_csv fs (pop_csv self)) ''GID_1'' \<and>
                  (\<exists>entry\<in>set (regions_dir fs (country_iso3 self)).
                     is_shp entry \<and> rows (snd entry) \<noteq> [])")
    case mismatch: True
    with True overlay_loop_wellformed [OF assms(2,3), of self fs intersects None]
    have "overlay_loop intersects self fs (population_csv fs (pop_csv self))
          (regions_dir fs (country_iso3 self)) None = Inl ValueError"
      by simp
    then have "flood_pop_overlay intersects self fs = Inl ValueError"
      by (simp add: flood_pop_overlay_def)
    with hazard mismatch show ?thesis by simp
  next
    case False
    with True overlay_loop_wellformed [OF assms(2,3), of self fs intersects None]
    obtain final where f: "overlay_loop intersects self fs (population_csv fs (pop_csv self))
        (regions_dir fs (country_iso3 self)) None = Inr final" by auto
    from overlay_loop_Inr [OF f] assms(1) obtain pop_bound result where
      m: "merge (snd (last (filter is_shp (regions_dir fs (country_iso3 self)))))
           (population_csv fs (pop_csv self)) ''GID_1'' = Inr pop_bound" and
      ov: "overlay intersects pop_bound (pop_flood self fs) = Inr result" and
      fin: "final = Some result"
      by auto
    from f fin have r: "flood_pop_overlay intersects self fs = Inr result"
      by (simp add: flood_pop_overlay_def)
    from overlay_Inr [OF ov] have s: "set result =
       {\<lparr>joined_row = r1, hazard_row = r2, shape = g\<rparr> | r1 r2 g.
          r1 \<in> set (rows pop_bound) \<and> r2 \<in> set (rows (pop_flood self fs)) \<and>
          intersects (geom (fst r1)) (geom r2) = Some g}"
      by simp
    have e1: "result = []" if "rows pop_bound = []"
      using s that by simp
    have e2: "result = []" if "rows (pop_flood self fs) = []"
      using s that by simp
    have e3: "result = []"
      if "\<forall>r1\<in>set (rows pop_bound). \<forall>r2\<in>set (rows (pop_flood self fs)).
            intersects (geom (fst r1)) (geom r2) = None"
    proof -
      from that s have "set result = {}" by auto
      then show ?thesis by simp
    qed
    from m r e1 e2 e3 have "\<exists>pop_bound result.
                merge (snd (last (filter is_shp (regions_dir fs (country_iso3 self)))))
                  (population_csv fs (pop_csv self)) ''GID_1'' = Inr pop_bound \<and>
                flood_pop_overlay intersects self fs = Inr result \<and>
                (rows pop_bound = [] \<longrightarrow> result = []) \<and>
                (rows (pop_flood self fs) = [] \<longrightarrow> result = []) \<and>
                ((\<forall>r1\<in>set (rows pop_bound). \<forall>r2\<in>set (rows (pop_flood self fs)).
                    intersects (geom (fst r1)) (geom r2) = None) \<longrightarrow> result = [])"
      by blast
    with hazard False show ?thesis by (simp only: if_True if_False)
  qed
qed

text \<open>
  Three samples: no population key matches a boundary key (empty result); no hazard
  shapefile (\<open>AttributeError\<close>); a population key column of numbers and a blank
  (\<open>ValueError\<close>).
\<close>

theorem flood_pop_overlay_empty_inputs_witness:
  "flood_pop_overlay sample_intersects sample_self sample_unmatched = Inr [] \<and>
   flood_pop_overlay sample_intersects sample_self sample_no_hazard = Inl AttributeError \<and>
   flood_pop_overlay sample_intersects sample_self sample_numeric = Inl ValueError"
proof -
  have "flood_pop_overlay sample_intersects sample_self sample_no_hazard = Inl AttributeError"
    using flood_pop_overlay_empty_inputs [of sample_no_hazard sample_self sample_intersects]
    by (simp add: sample_no_hazard_def sample_files_def sample_self_def is_shp_simps
        sample_regions_def sample_population_def numeric_key_def)
  moreover have "flood_pop_overlay sample_intersects sample_self sample_unmatched = Inr []"
    using flood_pop_overlay_empty_inputs [of sample_unmatched sample_self sample_intersects]
      sample_unmatched_merge
    by (simp add: sample_unmatched_def sample_files_def sample_self_def is_shp_simps
        sample_regions_def sample_hazards_def numeric_key_def)
  moreover have "flood_pop_overlay sample_intersects sample_self sample_numeric = Inl ValueError"
    using flood_pop_overlay_empty_inputs [of sample_numeric sample_self sample_intersects]
    by (simp add: sample_numeric_def sample_files_def sample_self_def is_shp_simps
        sample_regions_def sample_hazards_def numeric_key_def)
  ultimately show ?thesis by simp
qed

text \<open>
  C8 as stated fails: in the sample no population row matches a boundary row, the joined
  collection is empty, the hazard collection is not, and \<open>flood_pop_overlay\<close> returns the
  empty result instead of failing.
\<close>

theorem flood_pop_overlay_empty_inputs_counterexample:
  "merge sample_regions (population_csv sample_unmatched (pop_csv sample_self)) ''GID_1'' =
     Inr \<lparr>columns = [''GID_1'', ''geometry'', ''population''], rows = []\<rparr> \<and>
   rows (pop_flood sample_self sample_unmatched) \<noteq> [] \<and>
   flood_pop_overlay sample_intersects sample_self sample_unmatched = Inr []"
proof -
  have "overlay_loop sample_intersects sample_self sample_unmatched
          (population_csv sample_unmatched (pop_csv sample_self))
          [(''gadm_1.dbf'', \<lparr>columns = [], rows = []\<rparr>), (''gadm_1.shp'', sample_regions)] None =
        Inr (Some [])"
    using overlay_loop_shp [of "(''gadm_1.shp'', sample_regions)"
        "population_csv sample_unmatched (pop_csv sample_self)" _
        sample_intersects sample_self sample_unmatched "[]" None] sample_unmatched_merge
    by (simp add: overlay_loop_skip is_shp_simps overlay_def sample_unmatched_pop_flood
        sample_pop_flood del: overlay_loop.simps(2))
  then have "flood_pop_overlay sample_intersects sample_self sample_unmatched = Inr []"
    by (simp add: flood_pop_overlay_def sample_unmatched_def sample_files_def sample_self_def)
  then show ?thesis
    by (simp add: sample_unmatched_merge sample_unmatched_pop_flood sample_pop_flood)
qed

text \<open>
  C9. The join of \<open>flood_pop_overlay\<close> is on the column \<open>GID_1\<close> whatever level the
  country metadata configures: the result does not depend on the metadata table; when
  it returns, the boundaries have a column \<open>GID_1\<close> and every result row pairs a
  boundary row and a population row with equal \<open>GID_1\<close> cells; and a boundary shapefile
  without the column \<open>GID_1\<close> (keyed at another level only) makes the call fail.
\<close>

theorem flood_pop_overlay_fixed_key:
  "flood_pop_overlay intersects self (fs\<lparr>countries_csv := table\<rparr>) =
     flood_pop_overlay intersects self fs \<and>
   (\<forall>result. flood_pop_overlay intersects self fs = Inr result \<longrightarrow>
      ''GID_1'' \<in> set (columns (snd (last (filter is_shp (regions_dir fs (country_iso3 self)))))) \<and>
      (\<forall>e\<in>set result. map_option Text (map_of (cells (fst (joined_row e))) ''GID_1'') =
                         map_of (snd (joined_row e)) ''GID_1'')) \<and>
   ((\<exists>entry\<in>set (regions_dir fs (country_iso3 self)).
       is_shp entry \<and> ''GID_1'' \<notin> set (columns (snd entry))) \<longrightarrow>
    (\<exists>err. flood_pop_overlay intersects self fs = Inl err))"
proof (intro conjI allI impI)
  show "flood_pop_overlay intersects self (fs\<lparr>countries_csv := table\<rparr>) =
     flood_pop_overlay intersects self fs"
    by (simp add: flood_pop_overlay_def overlay_loop_countries)
next
  fix result
  assume ok: "flood_pop_overlay intersects self fs = Inr result"
  from flood_pop_overlay_Inr [OF ok] obtain pop_bound where
    m: "merge (snd (last (filter is_shp (regions_dir fs (country_iso3 self)))))
         (population_csv fs (pop_csv self)) ''GID_1'' = Inr pop_bound" and
    ov: "overlay intersects pop_bound (pop_flood self fs) = Inr result"
    by auto
  from merge_Inr [OF m]
  show "''GID_1'' \<in> set (columns (snd (last (filter is_shp (regions_dir fs (country_iso3 self))))))"
    by simp
  show "\<forall>e\<in>set result. map_option Text (map_of (cells (fst (joined_row e))) ''GID_1'') =
                         map_of (snd (joined_row e)) ''GID_1''"
  proof
    fix e assume "e \<in> set result"
    with overlay_Inr [OF ov] have "joined_row e \<in> set (rows pop_bound)" by auto
    with merge_Inr [OF m] show "map_option Text (map_of (cells (fst (joined_row e))) ''GID_1'') =
                         map_of (snd (joined_row e)) ''GID_1''" by auto
  qed
next
  assume "\<exists>entry\<in>set (regions_dir fs (country_iso3 self)).
       is_shp entry \<and> ''GID_1'' \<notin> set (columns (snd entry))"
  then obtain entry where e: "entry \<in> set (regions_dir fs (country_iso3 self))" "is_shp entry"
      "''GID_1'' \<notin> set (columns (snd entry))" by auto
  have "\<exists>err. overlay_loop intersects self fs data dir acc = Inl err"
    if "entry \<in> set dir" for data dir acc
    using that
  proof (induction dir arbitrary: acc)
    case Nil
    then show ?case by simp
  next
    case (Cons x rest)
    show ?case
    proof (cases "x = entry")
      case True
      with e show ?thesis by (simp add: is_shp_def merge_def)
    next
      case False
      with Cons show ?thesis
        by (auto simp add: Let_def split: sum.splits)
    qed
  qed
  from this [OF e(1), of "population_csv fs (pop_csv self)" None]
  obtain err where "overlay_loop intersects self fs (population_csv fs (pop_csv self))
      (regions_dir fs (country_iso3 self)) None = Inl err" by auto
  then show "\<exists>err. flood_pop_overlay intersects self fs = Inl err"
    by (simp add: flood_pop_overlay_def Let_def)
qed

theorem flood_pop_overlay_fixed_key_witness:
  "flood_pop_overlay sample_intersects sample_self
     (sample_files\<lparr>countries_csv := (\<lambda>path. [\<lparr>iso3 = ''KEN'', gid_region = ''2''\<rparr>])\<rparr>) =
     Inr [sample_exposure, sample_exposure] \<and>
   map_option Text (map_of (cells (fst (joined_row sample_exposure))) ''GID_1'') = Some (Text ''KEN.1_1'') \<and>
   map_of (snd (joined_row sample_exposure)) ''GID_1'' = Some (Text ''KEN.1_1'') \<and>
   (\<exists>err. flood_pop_overlay sample_intersects sample_self sample_level2 = Inl err)"
proof -
  note k = flood_pop_overlay_fixed_key [where intersects = sample_intersects
      and self = sample_self and fs = sample_files
      and table = "\<lambda>path. [\<lparr>iso3 = ''KEN'', gid_region = ''2''\<rparr>]"]
  note k2 = flood_pop_overlay_fixed_key [where intersects = sample_intersects
      and self = sample_self and fs = sample_level2 and table = "\<lambda>path. []"]
  from k sample_overlay have "flood_pop_overlay sample_intersects sample_self
     (sample_files\<lparr>countries_csv := (\<lambda>path. [\<lparr>iso3 = ''KEN'', gid_region = ''2''\<rparr>])\<rparr>) =
     Inr [sample_exposure, sample_exposure]" by simp
  moreover from k sample_overlay
  have "map_option Text (map_of (cells (fst (joined_row sample_exposure))) ''GID_1'') =
        map_of (snd (joined_row sample_exposure)) ''GID_1''" by simp
  then have "map_option Text (map_of (cells (fst (joined_row sample_exposure))) ''GID_1'') = Some (Text ''KEN.1_1'') \<and>
             map_of (snd (joined_row sample_exposure)) ''GID_1'' = Some (Text ''KEN.1_1'')"
    by (simp add: sample_exposure_def)
  moreover from k2 have "\<exists>err. flood_pop_overlay sample_intersects sample_self sample_level2 = Inl err"
    by (simp add: sample_level2_def sample_files_def sample_self_def is_shp_def endswith_def)
  ultimately show ?thesis by simp
qed

end
